theory Spec2Isabelle
  imports Complex_Main
begin

section \<open>The evidence store\<close>

text \<open>
  The programs read and write a Neo4j graph through \<open>GraphInterface\<close> (graph.py).
  The graph is modelled by the nodes and relationships the three scripts touch:
  \<^item> \<open>Size\<close> and \<open>Industry\<close> nodes, by their \<open>name\<close> property;
  \<^item> \<open>IncidentProbability\<close> nodes with a \<open>FOR_SIZE\<close> (or \<open>FOR_INDUSTRY\<close>) relationship,
    as pairs (name of the end node, \<open>probability\<close>);
  \<^item> \<open>IncidentCostAverages\<close> nodes likewise, as triples (name, \<open>mean\<close>, \<open>median\<close>);
  \<^item> the \<open>probabilities\<close> property of every \<open>IncidentBaseFrequencyProbabilities\<close> node;
  \<^item> \<open>IncidentFrequencyDistribution\<close> nodes as (size, industry, a, b) and
    \<open>IncidentCostsDistribution\<close> nodes as (size, industry, mean, stddev).
  Python floats are idealised as real numbers; a float that is NaN is the value \<open>None\<close>
  of a \<open>real option\<close> (only the fitted stddev can be one). The sampling of the number
  of incidents, where the range of a float decides what the code does, keeps that range.
\<close>

record store =
  size_nodes :: "string list"
  industry_nodes :: "string list"
  size_probability_rels :: "(string \<times> real) list"
  industry_probability_rels :: "(string \<times> real) list"
  size_cost_rels :: "(string \<times> real \<times> real) list"
  industry_cost_rels :: "(string \<times> real \<times> real) list"
  base_frequency_probabilities_nodes :: "real list list"
  frequency_distribution_nodes :: "(string \<times> string \<times> real \<times> real) list"
  costs_distribution_nodes :: "(string \<times> string \<times> real \<times> real option) list"

datatype error =
  NoFallbackNode | MismatchedBoundaries | IndexError | TypeError | ZeroDivisionError
  | OverflowError

text \<open>\<open>_get_node(label, name=...)\<close>: the first node of that label and name, or None.\<close>

definition get_node :: "string list \<Rightarrow> string \<Rightarrow> string option" where
  "get_node nodes name = find (\<lambda>n. n = name) nodes"

section \<open>Evidence resolution (graph.py)\<close>

text \<open>
  The three-way branch that turns the values collected on one side into one value:
  \<open>sum(xs) / len(xs)\<close> when there are several, \<open>xs[0]\<close> when there is one, and the
  initial None otherwise.
\<close>

definition side_value :: "real list \<Rightarrow> real option" where
  "side_value xs =
     (if length xs > 1 then Some (sum_list xs / real (length xs))
      else if length xs = 1 then Some (xs ! 0)
      else None)"

text \<open>Python truthiness of a value that is None or a number: None and 0 are false.\<close>

definition truthy :: "real option \<Rightarrow> bool" where
  "truthy v = (case v of None \<Rightarrow> False | Some x \<Rightarrow> x \<noteq> 0)"

text \<open>Python's \<open>a or b\<close>: \<open>a\<close> when \<open>a\<close> is true, else \<open>b\<close>.\<close>

definition py_or :: "real option \<Rightarrow> real option \<Rightarrow> real option" where
  "py_or a b = (if truthy a then a else b)"

text \<open>
  The closing \<open>if s and i: (s + i) / 2 else: s or i\<close> of both resolvers.
\<close>

definition combine :: "real option \<Rightarrow> real option \<Rightarrow> real option" where
  "combine s i =
     (case (s, i) of
        (Some a, Some b) \<Rightarrow> if a \<noteq> 0 \<and> b \<noteq> 0 then Some ((a + b) / 2) else py_or s i
      | _ \<Rightarrow> py_or s i)"

text \<open>The \<open>if size_node:\<close> block of \<open>get_probability_of_breach\<close>.\<close>

definition size_probability :: "store \<Rightarrow> string \<Rightarrow> real option" where
  "size_probability st sz =
     (case get_node (size_nodes st) sz of
        None \<Rightarrow> None
      | Some n \<Rightarrow> side_value (map snd (filter (\<lambda>r. fst r = n) (size_probability_rels st))))"

text \<open>The \<open>if industry_node:\<close> block of \<open>get_probability_of_breach\<close>.\<close>

definition industry_probability :: "store \<Rightarrow> string \<Rightarrow> real option" where
  "industry_probability st industry =
     (case get_node (industry_nodes st) industry of
        None \<Rightarrow> None
      | Some n \<Rightarrow> side_value (map snd (filter (\<lambda>r. fst r = n) (industry_probability_rels st))))"

definition get_probability_of_breach :: "store \<Rightarrow> string \<Rightarrow> string \<Rightarrow> real option" where
  "get_probability_of_breach st sz industry =
     (if get_node (size_nodes st) sz = None \<and> get_node (industry_nodes st) industry = None
      then None
      else combine (size_probability st sz) (industry_probability st industry))"

text \<open>
  The \<open>if size_node:\<close> and \<open>if industry_node:\<close> blocks of \<open>get_incident_cost_averages\<close>,
  once for the means and once for the medians.
\<close>

definition size_mean :: "store \<Rightarrow> string \<Rightarrow> real option" where
  "size_mean st sz =
     (case get_node (size_nodes st) sz of
        None \<Rightarrow> None
      | Some n \<Rightarrow> side_value (map (\<lambda>r. fst (snd r)) (filter (\<lambda>r. fst r = n) (size_cost_rels st))))"

definition size_median :: "store \<Rightarrow> string \<Rightarrow> real option" where
  "size_median st sz =
     (case get_node (size_nodes st) sz of
        None \<Rightarrow> None
      | Some n \<Rightarrow> side_value (map (\<lambda>r. snd (snd r)) (filter (\<lambda>r. fst r = n) (size_cost_rels st))))"

definition industry_mean :: "store \<Rightarrow> string \<Rightarrow> real option" where
  "industry_mean st industry =
     (case get_node (industry_nodes st) industry of
        None \<Rightarrow> None
      | Some n \<Rightarrow>
          side_value (map (\<lambda>r. fst (snd r)) (filter (\<lambda>r. fst r = n) (industry_cost_rels st))))"

definition industry_median :: "store \<Rightarrow> string \<Rightarrow> real option" where
  "industry_median st industry =
     (case get_node (industry_nodes st) industry of
        None \<Rightarrow> None
      | Some n \<Rightarrow>
          side_value (map (\<lambda>r. snd (snd r)) (filter (\<lambda>r. fst r = n) (industry_cost_rels st))))"

text \<open>
  \<open>get_incident_cost_averages\<close> returns the bare None when neither node exists and the
  tuple \<open>(mean, median)\<close>, each possibly None, otherwise.
\<close>

definition get_incident_cost_averages ::
  "store \<Rightarrow> string \<times> string \<Rightarrow> (real option \<times> real option) option" where
  "get_incident_cost_averages st pairing =
     (let sz = fst pairing; industry = snd pairing in
      if get_node (size_nodes st) sz = None \<and> get_node (industry_nodes st) industry = None
      then None
      else Some (combine (size_mean st sz) (industry_mean st industry),
                 combine (size_median st sz) (industry_median st industry)))"

text \<open>A store with no node at all.\<close>

definition empty_store :: store where
  "empty_store = \<lparr> size_nodes = [], industry_nodes = [],
     size_probability_rels = [], industry_probability_rels = [],
     size_cost_rels = [], industry_cost_rels = [],
     base_frequency_probabilities_nodes = [],
     frequency_distribution_nodes = [], costs_distribution_nodes = [] \<rparr>"

subsection \<open>Incident frequency probabilities\<close>

text \<open>
  \<open>base_frequency_probabilities\<close> is first the list of the qualifying vectors and, after
  the averaging branch, a flat list of means: two shapes of one Python variable.
\<close>

datatype base_probabilities = Vectors "real list list" | Means "real list"

text \<open>
  \<open>base_frequency_probabilities[:, i]\<close> on the two-dimensional array built from the
  qualifying vectors (all of one length): column \<open>i\<close>, or IndexError when \<open>i\<close> is not
  below the row length.
\<close>

definition column :: "real list list \<Rightarrow> nat \<Rightarrow> error + real list" where
  "column vs i =
     (case vs of
        [] \<Rightarrow> Inl IndexError
      | v # _ \<Rightarrow> if i < length v then Inr (map (\<lambda>row. row ! i) vs) else Inl IndexError)"

text \<open>
  The comprehension \<open>[np.mean(base_frequency_probabilities[:, i]) for i in ...]\<close>; the
  first failing index ends it.
\<close>

fun mean_columns :: "real list list \<Rightarrow> nat list \<Rightarrow> error + real list" where
  "mean_columns vs [] = Inr []"
| "mean_columns vs (i # rest) =
     (case column vs i of
        Inl e \<Rightarrow> Inl e
      | Inr c \<Rightarrow>
          (case mean_columns vs rest of
             Inl e \<Rightarrow> Inl e
           | Inr ms \<Rightarrow> Inr (sum_list c / real (length c) # ms)))"

text \<open>
  What \<open>for p in base_frequency_probabilities[0]\<close> iterates over: the first vector, an
  IndexError on an empty list, a TypeError when the first element is a number.
\<close>

definition first_row :: "base_probabilities \<Rightarrow> error + real list" where
  "first_row base =
     (case base of
        Vectors [] \<Rightarrow> Inl IndexError
      | Vectors (v # _) \<Rightarrow> Inr v
      | Means [] \<Rightarrow> Inl IndexError
      | Means (m # _) \<Rightarrow> Inl TypeError)"

definition get_incident_frequency_probabilities ::
  "int list \<Rightarrow> store \<Rightarrow> string \<times> string \<Rightarrow> error + real list option" where
  "get_incident_frequency_probabilities boundaries st pairing =
     (let sz = fst pairing; industry = snd pairing;
          vectors = filter (\<lambda>ps. int (length ps) = int (length boundaries) - 1)
                      (base_frequency_probabilities_nodes st)
      in case (if length vectors > 1
               then (case mean_columns vectors [0..<length boundaries] of
                       Inl e \<Rightarrow> Inl e | Inr ms \<Rightarrow> Inr (Means ms))
               else Inr (Vectors vectors)) of
           Inl e \<Rightarrow> Inl e
         | Inr base \<Rightarrow>
             (case get_probability_of_breach st sz industry of
                None \<Rightarrow> Inr None
              | Some p \<Rightarrow>
                  if p = 0 then Inr None
                  else (case first_row base of
                          Inl e \<Rightarrow> Inl e
                        | Inr row \<Rightarrow>
                            (let probabilities = (100 - p) / 100 # map (\<lambda>q. (p * q) / 100) row
                             in if length probabilities \<noteq> length boundaries
                                then Inl MismatchedBoundaries
                                else Inr (Some probabilities)))))"

subsection \<open>Stored distributions\<close>

text \<open>
  A value that the code tests with \<open>is None\<close>: the Python None, the tuple
  \<open>(None, None)\<close>, or a dictionary of parameters.
\<close>

datatype 'a resolved = PyNone | NonePair | Found 'a

text \<open>Python's \<open>sum\<close> and division over floats of which some may be NaN.\<close>

definition nan_mean :: "real option list \<Rightarrow> real option" where
  "nan_mean xs =
     (if None \<in> set xs then None else Some (sum_list (map the xs) / real (length xs)))"

text \<open>
  \<open>_get_frequency_distribution\<close>. The test that chooses between averaging and the
  single node is \<open>len(nodes) > 0\<close> in this function.
\<close>

definition get_frequency_distribution ::
  "store \<Rightarrow> string \<Rightarrow> string \<Rightarrow> error + (real \<times> real) resolved" where
  "get_frequency_distribution st sz industry =
     (let nodes = filter (\<lambda>n. fst n = sz \<and> fst (snd n) = industry)
                    (frequency_distribution_nodes st)
      in if length nodes = 0
         then (if sz = ''All'' \<and> industry = ''All'' then Inl NoFallbackNode else Inr NonePair)
         else (let a = map (\<lambda>n. fst (snd (snd n))) nodes;
                   b = map (\<lambda>n. snd (snd (snd n))) nodes
               in if length nodes > 0
                  then Inr (Found (sum_list a / real (length a), sum_list b / real (length b)))
                  else Inr (Found (a ! 0, b ! 0))))"

text \<open>\<open>_get_costs_distribution\<close>; here the test is \<open>len(nodes) > 1\<close>.\<close>

definition get_costs_distribution ::
  "store \<Rightarrow> string \<Rightarrow> string \<Rightarrow> error + (real \<times> real option) resolved" where
  "get_costs_distribution st sz industry =
     (let nodes = filter (\<lambda>n. fst n = sz \<and> fst (snd n) = industry)
                    (costs_distribution_nodes st)
      in if length nodes = 0
         then (if sz = ''All'' \<and> industry = ''All'' then Inl NoFallbackNode else Inr NonePair)
         else (let mean = map (\<lambda>n. fst (snd (snd n))) nodes;
                   stddev = map (\<lambda>n. snd (snd (snd n))) nodes
               in if length nodes > 1
                  then Inr (Found (sum_list mean / real (length mean), nan_mean stddev))
                  else Inr (Found (mean ! 0, stddev ! 0))))"

text \<open>
  The \<open>if dist is not None: log.debug(..., str(dist["a"]), ...)\<close> of the two public
  resolvers: the arguments of the call are evaluated whatever the log level, and a tuple
  indexed by a string is a TypeError.
\<close>

definition debug_parameters :: "'a resolved \<Rightarrow> error + 'a resolved" where
  "debug_parameters res =
     (case res of
        PyNone \<Rightarrow> Inr PyNone
      | NonePair \<Rightarrow> Inl TypeError
      | Found d \<Rightarrow> Inr (Found d))"

definition get_incident_frequency_distribution ::
  "store \<Rightarrow> string \<times> string \<Rightarrow> error + (real \<times> real) resolved" where
  "get_incident_frequency_distribution st pairing =
     (let sz = fst pairing; industry = snd pairing in
      if get_node (size_nodes st) sz = None \<and> get_node (industry_nodes st) industry = None
      then get_frequency_distribution st ''All'' ''All''
      else (case get_frequency_distribution st sz industry of
              Inl e \<Rightarrow> Inl e
            | Inr res \<Rightarrow> debug_parameters res))"

definition get_incident_costs_distribution ::
  "store \<Rightarrow> string \<times> string \<Rightarrow> error + (real \<times> real option) resolved" where
  "get_incident_costs_distribution st pairing =
     (let sz = fst pairing; industry = snd pairing in
      if get_node (size_nodes st) sz = None \<and> get_node (industry_nodes st) industry = None
      then get_costs_distribution st ''All'' ''All''
      else (case get_costs_distribution st sz industry of
              Inl e \<Rightarrow> Inl e
            | Inr res \<Rightarrow> debug_parameters res))"

section \<open>Distribution fitting (regenerate\_distributions.py)\<close>

definition MAX_ANNUAL_INCIDENTS :: int where
  "MAX_ANNUAL_INCIDENTS = 8000"

definition BOUNDARIES :: "(string \<times> int) list" where
  "BOUNDARIES =
     [(''None'', 0), (''Once per year'', 1), (''Less than once a month'', 2),
      (''Once a month'', 8), (''Once a week'', 18), (''Once a day'', 80),
      (''Several times a day'', 400), (''MAX'', MAX_ANNUAL_INCIDENTS)]"

text \<open>
  \<open>np.log\<close> on a number: the logarithm of a positive argument; \<open>-inf\<close> at 0 and NaN
  below, both written \<open>None\<close> here, since the square root that follows turns either
  into NaN.
\<close>

definition np_log :: "real \<Rightarrow> real option" where
  "np_log x = (if 0 < x then Some (ln x) else None)"

text \<open>
  The expression assigned to \<open>log_stddev\<close>. Python's conditional expression binds
  weaker than the subtraction, so the source reads
  \<open>(np.log(mean) - 0) if (median == 0) else np.log(median)\<close>.
  \<open>np.sqrt\<close> of a negative number is NaN.
\<close>

definition log_stddev :: "real \<Rightarrow> real \<Rightarrow> real option" where
  "log_stddev incident_mean_cost incident_median_cost =
     (case (if incident_median_cost = 0
            then map_option (\<lambda>l. l - 0) (np_log incident_mean_cost)
            else np_log incident_median_cost) of
        None \<Rightarrow> None
      | Some l \<Rightarrow> if 2 * l < 0 then None else Some (sqrt (2 * l)))"

text \<open>\<open>stddev = np.exp(1) ** log_stddev\<close>.\<close>

definition stddev :: "real \<Rightarrow> real \<Rightarrow> real option" where
  "stddev incident_mean_cost incident_median_cost =
     map_option (\<lambda>s. exp 1 powr s) (log_stddev incident_mean_cost incident_median_cost)"

text \<open>
  The two node constructors add the node with its two relationships; the py2neo calls
  are taken to succeed.
\<close>

definition create_incident_frequency_distribution_node ::
  "store \<Rightarrow> string \<times> string \<Rightarrow> real \<Rightarrow> real \<Rightarrow> store" where
  "create_incident_frequency_distribution_node st pairing a b =
     st\<lparr>frequency_distribution_nodes :=
          frequency_distribution_nodes st @ [(fst pairing, snd pairing, a, b)]\<rparr>"

definition create_incident_costs_distribution_node ::
  "store \<Rightarrow> string \<times> string \<Rightarrow> real \<Rightarrow> real option \<Rightarrow> store" where
  "create_incident_costs_distribution_node st pairing mean sd =
     st\<lparr>costs_distribution_nodes :=
          costs_distribution_nodes st @ [(fst pairing, snd pairing, mean, sd)]\<rparr>"

definition delete_distributions :: "store \<Rightarrow> store" where
  "delete_distributions st =
     st\<lparr>frequency_distribution_nodes := [], costs_distribution_nodes := []\<rparr>"

text \<open>
  \<open>_generate_new_incident_costs_distribution\<close>: the number of distributions generated
  and the store afterwards. Unpacking the bare None that
  \<open>get_incident_cost_averages\<close> returns when neither node exists is a TypeError.
  The plot between the computation and the write is left out.
\<close>

definition generate_new_incident_costs_distribution ::
  "store \<Rightarrow> string \<times> string \<Rightarrow> error + nat \<times> store" where
  "generate_new_incident_costs_distribution st pairing =
     (case get_incident_cost_averages st pairing of
        None \<Rightarrow> Inl TypeError
      | Some (incident_mean_cost, incident_median_cost) \<Rightarrow>
          (case (incident_mean_cost, incident_median_cost) of
             (Some m, Some md) \<Rightarrow>
               Inr (1, create_incident_costs_distribution_node st pairing m (stddev m md))
           | _ \<Rightarrow> Inr (0, st)))"

text \<open>
  \<open>_generate_new_incident_frequency_distribution\<close>. The regression of lines 102 to 120
  (cumulative sum, logarithms, ordinary least squares in statsmodels, \<open>a\<close> and \<open>b\<close> from
  the fitted parameters) is the parameter \<open>fit\<close>.
\<close>

definition generate_new_incident_frequency_distribution ::
  "(real list \<Rightarrow> real \<times> real) \<Rightarrow> store \<Rightarrow> string \<times> string \<Rightarrow> error + nat \<times> store" where
  "generate_new_incident_frequency_distribution fit st pairing =
     (case get_incident_frequency_probabilities (butlast (map snd BOUNDARIES)) st pairing of
        Inl e \<Rightarrow> Inl e
      | Inr None \<Rightarrow> Inr (0, st)
      | Inr (Some incident_frequency_probabilities) \<Rightarrow>
          (let ab = fit incident_frequency_probabilities
           in Inr (1, create_incident_frequency_distribution_node st pairing (fst ab) (snd ab))))"

text \<open>The loop of \<open>_generate_new_distributions\<close> over the pairs, with its two counters.\<close>

fun generate_for_pairs ::
  "(real list \<Rightarrow> real \<times> real) \<Rightarrow> store \<Rightarrow> (string \<times> string) list \<Rightarrow> nat \<times> nat
     \<Rightarrow> error + (nat \<times> nat) \<times> store" where
  "generate_for_pairs fit st [] counts = Inr (counts, st)"
| "generate_for_pairs fit st (pair # pairs) counts =
     (case generate_new_incident_frequency_distribution fit st pair of
        Inl e \<Rightarrow> Inl e
      | Inr (n, st1) \<Rightarrow>
          (case generate_new_incident_costs_distribution st1 pair of
             Inl e \<Rightarrow> Inl e
           | Inr (m, st2) \<Rightarrow> generate_for_pairs fit st2 pairs (fst counts + n, snd counts + m)))"

definition generate_new_distributions ::
  "(real list \<Rightarrow> real \<times> real) \<Rightarrow> store \<Rightarrow> string option \<times> string option
     \<Rightarrow> error + (nat \<times> nat) \<times> store" where
  "generate_new_distributions fit st pairing =
     (let st0 = delete_distributions st;
          sizes = (case fst pairing of None \<Rightarrow> size_nodes st0 | Some s \<Rightarrow> [s]);
          industries = (case snd pairing of None \<Rightarrow> industry_nodes st0 | Some i \<Rightarrow> [i])
      in generate_for_pairs fit st0 (List.product sizes industries) (0, 0))"

section \<open>Simulation (montecarlo.py)\<close>

text \<open>Python's \<open>int\<close> of a float: truncation towards zero.\<close>

definition py_int :: "real \<Rightarrow> int" where
  "py_int x = (if 0 \<le> x then \<lfloor>x\<rfloor> else \<lceil>x\<rceil>)"

text \<open>
  The arithmetic of \<open>_calculate_num_of_incidents\<close> is on Python floats, which are IEEE
  doubles. The model keeps the range of a double and idealises the rounding inside it:
  a result of magnitude \<open>2 ^ 1024\<close> or more is an infinity, a result of magnitude
  \<open>1 / 2 ^ 1075\<close> or less is zero, and every other result is taken as exact.
\<close>

datatype pyfloat = Finite real | PosInf | NegInf

definition fl :: "real \<Rightarrow> pyfloat" where
  "fl x =
     (if 2 ^ 1024 \<le> x then PosInf
      else if x \<le> - (2 ^ 1024) then NegInf
      else if \<bar>x\<bar> \<le> 1 / 2 ^ 1075 then Finite 0
      else Finite x)"

text \<open>
  Python's \<open>x ** y\<close> on floats for a positive base \<open>x\<close>: an overflow raises
  OverflowError, an underflow gives zero, and an infinite exponent gives 1, zero or an
  infinity without raising.
\<close>

definition float_pow :: "real \<Rightarrow> pyfloat \<Rightarrow> error + pyfloat" where
  "float_pow x y =
     (case y of
        Finite e \<Rightarrow> if 2 ^ 1024 \<le> x powr e then Inl OverflowError else Inr (fl (x powr e))
      | PosInf \<Rightarrow> Inr (if x = 1 then Finite 1 else if x < 1 then Finite 0 else PosInf)
      | NegInf \<Rightarrow> Inr (if x = 1 then Finite 1 else if x < 1 then PosInf else Finite 0))"

text \<open>
  \<open>_calculate_num_of_incidents\<close>, with the value of \<open>np.random.uniform()\<close>, a number of
  the half-open interval from 0 to 1, as the parameter \<open>u\<close>. The distribution is the pair
  \<open>(a, b)\<close>. Both divisions are Python float divisions, which raise on a zero divisor
  and give an infinity on overflow. The call of \<open>log.debug\<close> evaluates
  \<open>int(num_of_incidents)\<close> whatever the log level, before the comparison with the
  maximum; \<open>int\<close> of an infinity raises OverflowError.
\<close>

definition calculate_num_of_incidents :: "real \<times> real \<Rightarrow> real \<Rightarrow> error + int" where
  "calculate_num_of_incidents incidents_dist u =
     (let a = fst incidents_dist; b = snd incidents_dist in
      if a = 0 then Inl ZeroDivisionError
      else (case float_pow (1 - u) (fl (1 / a)) of
              Inl e \<Rightarrow> Inl e
            | Inr (Finite p) \<Rightarrow>
                if p = 0 then Inl ZeroDivisionError
                else (case fl (b / p) of
                        Finite num_of_incidents \<Rightarrow>
                          Inr (if num_of_incidents \<le> real_of_int MAX_ANNUAL_INCIDENTS
                               then py_int num_of_incidents
                               else MAX_ANNUAL_INCIDENTS)
                      | PosInf \<Rightarrow> Inl OverflowError
                      | NegInf \<Rightarrow> Inl OverflowError)
            | Inr PosInf \<Rightarrow> Inr 0
            | Inr NegInf \<Rightarrow> Inr 0))"

subsection \<open>The loss exceedance curve\<close>

definition COMPANY_VALUE :: int where
  "COMPANY_VALUE = 100000"

definition LEC_PRECISION :: nat where
  "LEC_PRECISION = nat \<lfloor>real_of_int COMPANY_VALUE / 30\<rfloor>"

text \<open>
  \<open>np.histogram(xs, bins=n)\<close> as numpy documents it: \<open>n\<close> bins of equal width between the
  least and the greatest sample (between 0 and 1 without samples, half a unit to either
  side of the only value when all samples are equal); every bin is closed on the left
  and open on the right, the last one closed on both sides. It returns the counts and
  the \<open>n + 1\<close> edges.
\<close>

definition histogram_range :: "real list \<Rightarrow> real \<times> real" where
  "histogram_range xs =
     (if xs = [] then (0, 1)
      else if Min (set xs) = Max (set xs) then (Min (set xs) - 1 / 2, Max (set xs) + 1 / 2)
      else (Min (set xs), Max (set xs)))"

definition edge :: "real \<times> real \<Rightarrow> nat \<Rightarrow> nat \<Rightarrow> real" where
  "edge r bins i = fst r + real i * (snd r - fst r) / real bins"

definition in_bin :: "real \<times> real \<Rightarrow> nat \<Rightarrow> nat \<Rightarrow> real \<Rightarrow> bool" where
  "in_bin r bins i x =
     (edge r bins i \<le> x \<and> (x < edge r bins (i + 1) \<or> (i + 1 = bins \<and> x = snd r)))"

definition histogram :: "real list \<Rightarrow> nat \<Rightarrow> nat list \<times> real list" where
  "histogram xs bins =
     (let r = histogram_range xs
      in (map (\<lambda>i. length (filter (in_bin r bins i) xs)) [0..<bins],
          map (edge r bins) [0..<bins + 1]))"

text \<open>\<open>np.cumsum\<close>: the running sums.\<close>

fun cumsum_from :: "nat \<Rightarrow> nat list \<Rightarrow> nat list" where
  "cumsum_from acc [] = []"
| "cumsum_from acc (x # xs) = (acc + x) # cumsum_from (acc + x) xs"

definition cumsum :: "nat list \<Rightarrow> nat list" where
  "cumsum xs = cumsum_from 0 xs"

text \<open>
  Lines 240 and 241 of \<open>_run_monte_carlo_simulation\<close> and the two sequences it plots,
  \<open>edges[:-1]\<close> and \<open>cumrev\<close>. The division is numpy's: without samples every entry is
  0/0, a NaN, for which the result is \<open>None\<close>.
\<close>

definition cumrev :: "nat list \<Rightarrow> nat \<Rightarrow> real list" where
  "cumrev hist n = map (\<lambda>c. real (c * 100) / real n) (rev (cumsum (rev hist)))"

definition loss_exceedance_curve :: "real list \<Rightarrow> (real list \<times> real list) option" where
  "loss_exceedance_curve sum_costs =
     (let he = histogram sum_costs LEC_PRECISION
      in if length sum_costs = 0 then None
         else Some (butlast (snd he), cumrev (fst he) (length sum_costs)))"

subsection \<open>The simulation driver\<close>

text \<open>
  \<open>_get_most_relevant_distributions\<close>. The pickle cache is the parameter \<open>cache\<close>: what
  the load returns for a pairing, and \<open>None\<close> when the file is missing or the run is
  forced. Writing the cache is left out.
\<close>

type_synonym distributions = "(real \<times> real) resolved \<times> (real \<times> real option) resolved"

definition get_most_relevant_distributions ::
  "store \<Rightarrow> (string \<times> string \<Rightarrow> distributions option) \<Rightarrow> string \<times> string
     \<Rightarrow> error + distributions" where
  "get_most_relevant_distributions st cache pairing =
     (case cache pairing of
        Some dists \<Rightarrow> Inr dists
      | None \<Rightarrow>
          (case get_incident_frequency_distribution st pairing of
             Inl e \<Rightarrow> Inl e
           | Inr incidents_dist \<Rightarrow>
               (case get_incident_costs_distribution st pairing of
                  Inl e \<Rightarrow> Inl e
                | Inr costs_dist \<Rightarrow> Inr (incidents_dist, costs_dist))))"

text \<open>
  \<open>_run_monte_carlo_simulation\<close>. The trials and the plots that follow the test of the
  two distributions (lines 198 to 255) draw random numbers; they are the parameter
  \<open>simulate\<close>, which yields the numbers of incidents and the annual costs. The result
  \<open>None\<close> is the pair \<open>(None, None)\<close> of the early return.
\<close>

definition run_monte_carlo_simulation ::
  "store \<Rightarrow> (string \<times> string \<Rightarrow> distributions option)
     \<Rightarrow> (distributions \<Rightarrow> error + int list \<times> real list) \<Rightarrow> string \<times> string
     \<Rightarrow> error + (int list \<times> real list) option" where
  "run_monte_carlo_simulation st cache simulate pairing =
     (case get_most_relevant_distributions st cache pairing of
        Inl e \<Rightarrow> Inl e
      | Inr dists \<Rightarrow>
          if fst dists = PyNone \<and> snd dists = PyNone then Inr None
          else (case simulate dists of
                  Inl e \<Rightarrow> Inl e
                | Inr results \<Rightarrow> Inr (Some results)))"

text \<open>
  What \<open>main\<close> reports for a segment: the simulated figures (from which it prints the
  averages) or "No data found.".
\<close>

datatype report = Simulated "int list" "real list" | NoDataFound

text \<open>
  \<open>main\<close> after the arguments are parsed: the requested segment when \<open>size or industry\<close>
  holds, then the universal segment, whose result it sums without a test.
\<close>

definition main ::
  "store \<Rightarrow> (string \<times> string \<Rightarrow> distributions option)
     \<Rightarrow> (distributions \<Rightarrow> error + int list \<times> real list) \<Rightarrow> string \<Rightarrow> string
     \<Rightarrow> error + report list" where
  "main st cache simulate sz industry =
     (case (if sz \<noteq> [] \<or> industry \<noteq> []
            then (case run_monte_carlo_simulation st cache simulate (sz, industry) of
                    Inl e \<Rightarrow> Inl e
                  | Inr None \<Rightarrow> Inr [NoDataFound]
                  | Inr (Some (nums, costs)) \<Rightarrow> Inr [Simulated nums costs])
            else Inr []) of
        Inl e \<Rightarrow> Inl e
      | Inr reports \<Rightarrow>
          (case run_monte_carlo_simulation st cache simulate (''All'', ''All'') of
             Inl e \<Rightarrow> Inl e
           | Inr None \<Rightarrow> Inl TypeError
           | Inr (Some (nums, costs)) \<Rightarrow> Inr (reports @ [Simulated nums costs])))"

section \<open>Policies and example stores\<close>

text \<open>
  The mean and the median of \<open>get_incident_cost_averages\<close>, None when it returns the
  bare None.
\<close>

definition resolved_mean :: "store \<Rightarrow> string \<times> string \<Rightarrow> real option" where
  "resolved_mean st pairing = Option.bind (get_incident_cost_averages st pairing) fst"

definition resolved_median :: "store \<Rightarrow> string \<times> string \<Rightarrow> real option" where
  "resolved_median st pairing = Option.bind (get_incident_cost_averages st pairing) snd"

text \<open>
  The combination policy for a size side \<open>s\<close>, an industry side \<open>i\<close> and a result \<open>r\<close>:
  the mean of two sides that are present and not zero, the value of the only side that
  has data (not zero, when it is the size side), None without data.
\<close>

definition averaging_policy :: "real option \<Rightarrow> real option \<Rightarrow> real option \<Rightarrow> bool" where
  "averaging_policy s i r =
     (case (s, i) of
        (Some a, Some b) \<Rightarrow> a \<noteq> 0 \<and> b \<noteq> 0 \<longrightarrow> r = Some ((a + b) / 2)
      | (Some a, None) \<Rightarrow> a \<noteq> 0 \<longrightarrow> r = Some a
      | (None, Some b) \<Rightarrow> r = Some b
      | (None, None) \<Rightarrow> r = None)"

text \<open>
  What the resolvers do with a side that is 0: the other side's value when that is not
  zero; None for a zero size side without an industry side; 0 for a zero industry side
  whose size side is absent or zero.
\<close>

definition zero_policy :: "real option \<Rightarrow> real option \<Rightarrow> real option \<Rightarrow> bool" where
  "zero_policy s i r =
     (case (s, i) of
        (Some a, Some b) \<Rightarrow>
          (a = 0 \<and> b \<noteq> 0 \<longrightarrow> r = Some b) \<and> (a \<noteq> 0 \<and> b = 0 \<longrightarrow> r = Some a)
          \<and> (a = 0 \<and> b = 0 \<longrightarrow> r = Some 0)
      | (Some a, None) \<Rightarrow> a = 0 \<longrightarrow> r = None
      | (None, Some b) \<Rightarrow> b = 0 \<longrightarrow> r = Some 0
      | (None, None) \<Rightarrow> True)"

text \<open>
  A store with the universal segment, one size and one industry, evidence on both
  sides, one base vector and the universal distributions.
\<close>

definition segment_store :: store where
  "segment_store = \<lparr> size_nodes = [''All'', ''Small''], industry_nodes = [''All'', ''A''],
     size_probability_rels = [(''Small'', 40)], industry_probability_rels = [(''A'', 60)],
     size_cost_rels = [(''Small'', 1000, 800)], industry_cost_rels = [(''A'', 3000, 1200)],
     base_frequency_probabilities_nodes = [[7 / 10, 3 / 10]],
     frequency_distribution_nodes = [(''All'', ''All'', 1, 1)],
     costs_distribution_nodes = [(''All'', ''All'', 1000, Some 2)] \<rparr>"

text \<open>
  The base vectors that qualify for a list of boundaries: the filter at the head of
  \<open>get_incident_frequency_probabilities\<close>.
\<close>

definition qualifying :: "int list \<Rightarrow> store \<Rightarrow> real list list" where
  "qualifying boundaries st =
     filter (\<lambda>ps. int (length ps) = int (length boundaries) - 1)
       (base_frequency_probabilities_nodes st)"

text \<open>
  The segment store without the evidence of the size side: the pairing of the size
  \<open>Small\<close> with the industry \<open>All\<close>, which has a node and no evidence, then has no
  breach probability and no cost averages.
\<close>

definition no_evidence_store :: store where
  "no_evidence_store = segment_store\<lparr>size_probability_rels := [], size_cost_rels := []\<rparr>"

text \<open>The segment store with one cost record, of mean 1000 and median 1000.\<close>

definition equal_costs_store :: store where
  "equal_costs_store =
     segment_store\<lparr>size_cost_rels := [(''Small'', 1000, 1000)], industry_cost_rels := []\<rparr>"

text \<open>The segment store with a breach probability of 0 on both sides.\<close>

definition zero_probability_store :: store where
  "zero_probability_store =
     segment_store\<lparr>size_probability_rels := [(''Small'', 0)],
       industry_probability_rels := [(''A'', 0)]\<rparr>"

text \<open>The segment store with two base vectors of the same length.\<close>

definition two_vector_store :: store where
  "two_vector_store =
     segment_store\<lparr>base_frequency_probabilities_nodes := [[7 / 10, 3 / 10], [1 / 2, 1 / 2]]\<rparr>"

section \<open>Evidence resolution: averaging and zero values\<close>

lemmas resolver_defs =
  get_probability_of_breach_def get_incident_cost_averages_def get_node_def combine_def
  size_probability_def industry_probability_def size_mean_def industry_mean_def
  size_median_def industry_median_def side_value_def py_or_def truthy_def
  resolved_mean_def resolved_median_def

lemma combine_averaging_policy: "averaging_policy s i (combine s i)"
  by (auto simp: averaging_policy_def combine_def py_or_def truthy_def split: option.splits)

lemma combine_zero_policy: "zero_policy s i (combine s i)"
  by (auto simp: zero_policy_def combine_def py_or_def truthy_def split: option.splits)

lemma probability_is_combine:
  "get_probability_of_breach st sz ind
     = combine (size_probability st sz) (industry_probability st ind)"
  by (auto simp: get_probability_of_breach_def size_probability_def industry_probability_def
      combine_def py_or_def truthy_def)

lemma resolved_mean_is_combine:
  "resolved_mean st (sz, ind) = combine (size_mean st sz) (industry_mean st ind)"
  by (auto simp: resolved_mean_def get_incident_cost_averages_def size_mean_def
      industry_mean_def combine_def py_or_def truthy_def)

lemma resolved_median_is_combine:
  "resolved_median st (sz, ind) = combine (size_median st sz) (industry_median st ind)"
  by (auto simp: resolved_median_def get_incident_cost_averages_def size_median_def
      industry_median_def combine_def py_or_def truthy_def)

text \<open>
  C2, as the code has it. The breach probability, the cost mean and the cost median are
  each resolved by the same policy: the arithmetic mean of the size side and the
  industry side when both are present and not zero; the value of the only side that has
  data (for the size side, when it is not zero); None when neither side has data.
\<close>

theorem resolution_averages_nonzero_sides:
  "averaging_policy (size_probability st sz) (industry_probability st ind)
     (get_probability_of_breach st sz ind)
   \<and> averaging_policy (size_mean st sz) (industry_mean st ind) (resolved_mean st (sz, ind))
   \<and> averaging_policy (size_median st sz) (industry_median st ind)
       (resolved_median st (sz, ind))"
  by (simp add: probability_is_combine resolved_mean_is_combine resolved_median_is_combine
      combine_averaging_policy)

theorem resolution_averages_nonzero_sides_witness:
  "size_probability segment_store ''Small'' = Some 40
   \<and> industry_probability segment_store ''A'' = Some 60
   \<and> get_probability_of_breach segment_store ''Small'' ''A'' = Some 50
   \<and> resolved_mean segment_store (''Small'', ''A'') = Some 2000
   \<and> resolved_median segment_store (''Small'', ''A'') = Some 1000
   \<and> get_probability_of_breach segment_store ''Small'' ''B'' = Some 40
   \<and> get_probability_of_breach segment_store ''Large'' ''A'' = Some 60
   \<and> get_probability_of_breach segment_store ''Large'' ''B'' = None"
  using resolution_averages_nonzero_sides [of segment_store "''Small''" "''A''"]
    resolution_averages_nonzero_sides [of segment_store "''Small''" "''B''"]
    resolution_averages_nonzero_sides [of segment_store "''Large''" "''A''"]
    resolution_averages_nonzero_sides [of segment_store "''Large''" "''B''"]
  by (simp add: averaging_policy_def segment_store_def get_node_def size_probability_def
      industry_probability_def size_mean_def industry_mean_def size_median_def
      industry_median_def side_value_def)

text \<open>
  C2 as stated fails where a side is present with the value 0: a size side of 0 and an
  industry side of 60 resolve to 60, not to their mean 30.
\<close>

theorem zero_side_not_averaged_counterexample:
  "size_probability (segment_store\<lparr>size_probability_rels := [(''Small'', 0)]\<rparr>) ''Small''
     = Some 0
   \<and> industry_probability (segment_store\<lparr>size_probability_rels := [(''Small'', 0)]\<rparr>) ''A''
     = Some 60
   \<and> get_probability_of_breach
       (segment_store\<lparr>size_probability_rels := [(''Small'', 0)]\<rparr>) ''Small'' ''A''
     = Some 60
   \<and> get_probability_of_breach
       (segment_store\<lparr>size_probability_rels := [(''Small'', 0)]\<rparr>) ''Small'' ''A''
     \<noteq> Some ((0 + 60) / 2)"
  by (simp add: resolver_defs segment_store_def)

text \<open>
  C10, as the code has it. In the resolution of the breach probability, of the cost
  mean and of the cost median, a side that is 0 counts as absent when the other side
  holds a value that is not zero, which is then returned; a size side of 0 without an
  industry side resolves to None; an industry side of 0 whose size side is absent or 0
  resolves to 0.
\<close>

theorem zero_side_treated_as_absent:
  "zero_policy (size_probability st sz) (industry_probability st ind)
     (get_probability_of_breach st sz ind)
   \<and> zero_policy (size_mean st sz) (industry_mean st ind) (resolved_mean st (sz, ind))
   \<and> zero_policy (size_median st sz) (industry_median st ind) (resolved_median st (sz, ind))"
  by (simp add: probability_is_combine resolved_mean_is_combine resolved_median_is_combine
      combine_zero_policy)

theorem zero_side_treated_as_absent_witness:
  "size_probability (segment_store\<lparr>size_probability_rels := [(''Small'', 0)]\<rparr>) ''Small''
     = Some 0
   \<and> get_probability_of_breach
       (segment_store\<lparr>size_probability_rels := [(''Small'', 0)]\<rparr>) ''Small'' ''A''
     = Some 60
   \<and> get_probability_of_breach
       (segment_store\<lparr>size_probability_rels := [(''Small'', 0)]\<rparr>) ''Small'' ''B''
     = None
   \<and> resolved_mean (segment_store\<lparr>industry_cost_rels := [(''A'', 0, 0)]\<rparr>) (''Small'', ''A'')
     = Some 1000
   \<and> resolved_median (segment_store\<lparr>industry_cost_rels := [(''A'', 0, 0)]\<rparr>) (''Large'', ''A'')
     = Some 0"
  using
    zero_side_treated_as_absent
      [of "segment_store\<lparr>size_probability_rels := [(''Small'', 0)]\<rparr>" "''Small''" "''A''"]
    zero_side_treated_as_absent
      [of "segment_store\<lparr>size_probability_rels := [(''Small'', 0)]\<rparr>" "''Small''" "''B''"]
    zero_side_treated_as_absent
      [of "segment_store\<lparr>industry_cost_rels := [(''A'', 0, 0)]\<rparr>" "''Small''" "''A''"]
    zero_side_treated_as_absent
      [of "segment_store\<lparr>industry_cost_rels := [(''A'', 0, 0)]\<rparr>" "''Large''" "''A''"]
  by (simp add: zero_policy_def segment_store_def get_node_def size_probability_def
      industry_probability_def size_mean_def industry_mean_def size_median_def
      industry_median_def side_value_def)

text \<open>
  C10 as stated fails where the only value is a 0 on the industry side: the resolver
  returns that 0, not None.
\<close>

theorem industry_zero_returned_counterexample:
  "size_probability
     (segment_store\<lparr>size_probability_rels := [], industry_probability_rels := [(''A'', 0)]\<rparr>)
     ''Small'' = None
   \<and> industry_probability
     (segment_store\<lparr>size_probability_rels := [], industry_probability_rels := [(''A'', 0)]\<rparr>)
     ''A'' = Some 0
   \<and> get_probability_of_breach
     (segment_store\<lparr>size_probability_rels := [], industry_probability_rels := [(''A'', 0)]\<rparr>)
     ''Small'' ''A'' = Some 0
   \<and> get_probability_of_breach
     (segment_store\<lparr>size_probability_rels := [], industry_probability_rels := [(''A'', 0)]\<rparr>)
     ''Small'' ''A'' \<noteq> None"
  by (simp add: resolver_defs segment_store_def)

section \<open>Cost fitting\<close>

lemma exp_one_powr: "exp 1 powr (s::real) = exp s"
  by (simp add: powr_def)

text \<open>
  With a median of at least 1 the fitted stddev depends on the median alone; the mean
  enters only when the median is 0.
\<close>

lemma stddev_nonzero_median:
  "1 \<le> md \<Longrightarrow> stddev m md = Some (exp (sqrt (2 * ln md)))"
  by (simp add: stddev_def log_stddev_def np_log_def exp_one_powr)

lemma stddev_zero_median:
  "1 \<le> m \<Longrightarrow> stddev m 0 = Some (exp (sqrt (2 * ln m)))"
  by (simp add: stddev_def log_stddev_def np_log_def exp_one_powr)

lemma equal_costs_averages:
  "get_incident_cost_averages equal_costs_store (''Small'', ''A'')
     = Some (Some 1000, Some 1000)"
  by (simp add: resolver_defs equal_costs_store_def segment_store_def)

text \<open>
  C1 at mean = 1000 and median = 1000: the code persists the cost distribution with
  stddev \<open>exp (sqrt (2 * ln 1000))\<close>, which is not 1. The logarithm of the mean is
  subtracted from nothing: the conditional expression takes \<open>np.log(median)\<close> alone
  when the median is not 0.
\<close>

theorem cost_fitting_at_equal_mean_and_median:
  "generate_new_incident_costs_distribution equal_costs_store (''Small'', ''A'')
     = Inr (1, equal_costs_store\<lparr>costs_distribution_nodes :=
         costs_distribution_nodes equal_costs_store
           @ [(''Small'', ''A'', 1000, Some (exp (sqrt (2 * ln 1000))))]\<rparr>)
   \<and> stddev 1000 1000 = Some (exp (sqrt (2 * ln 1000)))
   \<and> stddev 1000 1000 \<noteq> Some 1"
  by (simp add: generate_new_incident_costs_distribution_def equal_costs_averages
      create_incident_costs_distribution_node_def stddev_nonzero_median)

text \<open>
  When the resolver returns a pair of which a component is None, the cost fitting
  reports 0 distributions and leaves the store as it is.
\<close>

lemma cost_fitting_skips_missing_average:
  "get_incident_cost_averages st pairing = Some (m, md) \<Longrightarrow> m = None \<or> md = None \<Longrightarrow>
   generate_new_incident_costs_distribution st pairing = Inr (0, st)"
  by (auto simp: generate_new_incident_costs_distribution_def split: option.splits)

text \<open>
  The regeneration driver takes the industries from the Industry nodes (the option
  that would name one accepts no value), so every pairing it fits has an Industry node
  and the resolver returns a pair for it.
\<close>

lemma enumerated_pair_resolves_to_pair:
  "ind \<in> set (industry_nodes st)
   \<Longrightarrow> \<exists>m md. get_incident_cost_averages st (sz, ind) = Some (m, md)"
  by (auto simp: get_incident_cost_averages_def get_node_def find_None_iff)

text \<open>
  For a pairing without either node the resolver returns the bare None, which the
  cost fitting cannot unpack; the driver never fits such a pairing.
\<close>

lemma cost_fitting_without_nodes_raises:
  "get_incident_cost_averages empty_store (''micro'', ''A'') = None
   \<and> generate_new_incident_costs_distribution empty_store (''micro'', ''A'') = Inl TypeError"
  by (simp add: generate_new_incident_costs_distribution_def get_incident_cost_averages_def
      get_node_def empty_store_def)

lemma cost_averages_ignore_frequency_nodes:
  "get_incident_cost_averages (st\<lparr>frequency_distribution_nodes := ns\<rparr>) p
     = get_incident_cost_averages st p"
  by (simp add: get_incident_cost_averages_def size_mean_def size_median_def
      industry_mean_def industry_median_def Let_def cong: option.case_cong)

lemma frequency_fitting_keeps_cost_averages:
  assumes "generate_new_incident_frequency_distribution fit st pairing = Inr (n, st1)"
  shows "get_incident_cost_averages st1 p = get_incident_cost_averages st p"
proof -
  have "st1 = st \<or> (\<exists>a b. st1 = create_incident_frequency_distribution_node st pairing a b)"
    using assms
    by (auto simp: generate_new_incident_frequency_distribution_def Let_def
        split: sum.splits option.splits)
  then show ?thesis
    by (auto simp: create_incident_frequency_distribution_node_def
        cost_averages_ignore_frequency_nodes)
qed

text \<open>
  C3. For a segment whose cost resolution yields None for the mean or for the median,
  the cost fitting returns 0 distributions, raises nothing and leaves the store as it
  is; and in the loop of the regeneration driver the segment adds nothing to the count
  of cost distributions, the count of frequency distributions is what the frequency
  fitting reports, and the loop goes on with the remaining pairs.
\<close>

theorem cost_fitting_skips_segment_without_evidence:
  assumes "get_incident_cost_averages st pairing = Some (m, md)" and "m = None \<or> md = None"
  shows "generate_new_incident_costs_distribution st pairing = Inr (0, st)
         \<and> generate_for_pairs fit st (pairing # pairs) counts
             = (case generate_new_incident_frequency_distribution fit st pairing of
                  Inl e \<Rightarrow> Inl e
                | Inr (n, st1) \<Rightarrow> generate_for_pairs fit st1 pairs (fst counts + n, snd counts))"
proof
  show "generate_new_incident_costs_distribution st pairing = Inr (0, st)"
    using assms by (rule cost_fitting_skips_missing_average)
next
  show "generate_for_pairs fit st (pairing # pairs) counts
      = (case generate_new_incident_frequency_distribution fit st pairing of
           Inl e \<Rightarrow> Inl e
         | Inr (n, st1) \<Rightarrow> generate_for_pairs fit st1 pairs (fst counts + n, snd counts))"
  proof (cases "generate_new_incident_frequency_distribution fit st pairing")
    case (Inl e)
    then show ?thesis by simp
  next
    case (Inr r)
    obtain n st1 where r: "r = (n, st1)" by (cases r)
    have "get_incident_cost_averages st1 pairing = Some (m, md)"
      using Inr r assms(1) frequency_fitting_keeps_cost_averages by simp
    then have "generate_new_incident_costs_distribution st1 pairing = Inr (0, st1)"
      using assms(2) by (rule cost_fitting_skips_missing_average)
    then show ?thesis using Inr r by simp
  qed
qed

theorem cost_fitting_skips_segment_without_evidence_witness:
  "get_incident_cost_averages no_evidence_store (''Small'', ''All'') = Some (None, None)
   \<and> generate_new_incident_costs_distribution no_evidence_store (''Small'', ''All'')
       = Inr (0, no_evidence_store)
   \<and> generate_for_pairs (\<lambda>ps. (1, 1)) no_evidence_store [(''Small'', ''All'')] (0, 0)
       = Inr ((0, 0), no_evidence_store)"
proof -
  have r: "get_incident_cost_averages no_evidence_store (''Small'', ''All'') = Some (None, None)"
    by (simp add: resolver_defs no_evidence_store_def segment_store_def)
  have f: "generate_new_incident_frequency_distribution (\<lambda>ps. (1, 1)) no_evidence_store
      (''Small'', ''All'') = Inr (0, no_evidence_store)"
    by (simp add: generate_new_incident_frequency_distribution_def
        get_incident_frequency_probabilities_def BOUNDARIES_def resolver_defs
        no_evidence_store_def segment_store_def)
  show ?thesis
    using cost_fitting_skips_segment_without_evidence [OF r, of "\<lambda>ps. (1, 1)" "[]" "(0, 0)"] r f
    by simp
qed

section \<open>Stored distributions and the simulation driver\<close>

lemma segment_without_distribution:
  "get_incident_frequency_distribution segment_store (''Small'', ''A'') = Inl TypeError"
  by (simp add: get_incident_frequency_distribution_def get_frequency_distribution_def
      debug_parameters_def get_node_def segment_store_def)

text \<open>
  C4 on a store that has the nodes of the requested segment and the universal
  distributions, but no distribution for the segment: the resolver raises a TypeError
  (it indexes the tuple \<open>(None, None)\<close> with a string), and \<open>main\<close> ends with that
  error before it reports anything or reaches the universal segment.
\<close>

theorem missing_segment_distribution_raises:
  "get_frequency_distribution segment_store ''Small'' ''A'' = Inr NonePair
   \<and> get_incident_frequency_distribution segment_store (''Small'', ''A'') = Inl TypeError
   \<and> main segment_store (\<lambda>p. None) simulate ''Small'' ''A'' = Inl TypeError"
  by (simp add: main_def run_monte_carlo_simulation_def get_most_relevant_distributions_def
      segment_without_distribution)
    (simp add: get_frequency_distribution_def segment_store_def)

theorem missing_segment_distribution_raises_witness:
  "main segment_store (\<lambda>p. None) (\<lambda>d. Inr ([1], [10])) ''Small'' ''A'' = Inl TypeError"
  using missing_segment_distribution_raises [of "\<lambda>d. Inr ([1], [10])"]
  by simp

text \<open>The universal segment alone is simulated on the same store.\<close>

lemma universal_segment_simulated:
  "main segment_store (\<lambda>p. None) (\<lambda>d. Inr ([1], [10])) [] [] = Inr [Simulated [1] [10]]"
  by (simp add: main_def run_monte_carlo_simulation_def get_most_relevant_distributions_def
      get_incident_frequency_distribution_def get_frequency_distribution_def
      get_incident_costs_distribution_def get_costs_distribution_def
      debug_parameters_def get_node_def segment_store_def)

lemma fallback_error_propagates:
  "get_frequency_distribution st ''All'' ''All'' = Inl e
   \<Longrightarrow> get_incident_frequency_distribution st (''All'', ''All'') = Inl e"
  by (simp add: get_incident_frequency_distribution_def Let_def)

lemma fallback_costs_error_propagates:
  "get_costs_distribution st ''All'' ''All'' = Inl e
   \<Longrightarrow> get_incident_costs_distribution st (''All'', ''All'') = Inl e"
  by (simp add: get_incident_costs_distribution_def Let_def)

lemma frequency_distribution_absent:
  "\<forall>n \<in> set (frequency_distribution_nodes st). \<not> (fst n = sz \<and> fst (snd n) = ind)
   \<Longrightarrow> get_frequency_distribution st sz ind
        = (if sz = ''All'' \<and> ind = ''All'' then Inl NoFallbackNode else Inr NonePair)"
  by (simp add: get_frequency_distribution_def filter_empty_conv)

lemma costs_distribution_absent:
  "\<forall>n \<in> set (costs_distribution_nodes st). \<not> (fst n = sz \<and> fst (snd n) = ind)
   \<Longrightarrow> get_costs_distribution st sz ind
        = (if sz = ''All'' \<and> ind = ''All'' then Inl NoFallbackNode else Inr NonePair)"
  by (simp add: get_costs_distribution_def filter_empty_conv)

lemma frequency_distribution_present:
  "\<not> (\<forall>n \<in> set (frequency_distribution_nodes st). \<not> (fst n = sz \<and> fst (snd n) = ind))
   \<Longrightarrow> \<exists>d. get_frequency_distribution st sz ind = Inr (Found d)"
  by (auto simp: get_frequency_distribution_def filter_empty_conv Let_def)

lemma fallback_found_propagates:
  "get_frequency_distribution st ''All'' ''All'' = Inr (Found d)
   \<Longrightarrow> get_incident_frequency_distribution st (''All'', ''All'') = Inr (Found d)"
  by (simp add: get_incident_frequency_distribution_def debug_parameters_def Let_def)

text \<open>
  The private lookups: when no stored frequency (or cost) distribution node matches
  the pairing, \<open>_get_frequency_distribution\<close> (or \<open>_get_costs_distribution\<close>) raises for
  the universal pairing and returns the tuple \<open>(None, None)\<close> for every other pairing;
  and a run of \<open>main\<close> for the universal segment ends with that error when either
  universal distribution is missing.
\<close>

lemma private_lookup_without_node:
  "((\<forall>n \<in> set (frequency_distribution_nodes st). \<not> (fst n = sz \<and> fst (snd n) = ind))
      \<longrightarrow> get_frequency_distribution st sz ind
          = (if sz = ''All'' \<and> ind = ''All'' then Inl NoFallbackNode else Inr NonePair))
   \<and> ((\<forall>n \<in> set (costs_distribution_nodes st). \<not> (fst n = sz \<and> fst (snd n) = ind))
      \<longrightarrow> get_costs_distribution st sz ind
          = (if sz = ''All'' \<and> ind = ''All'' then Inl NoFallbackNode else Inr NonePair))
   \<and> (((\<forall>n \<in> set (frequency_distribution_nodes st).
           \<not> (fst n = ''All'' \<and> fst (snd n) = ''All''))
        \<or> (\<forall>n \<in> set (costs_distribution_nodes st).
           \<not> (fst n = ''All'' \<and> fst (snd n) = ''All'')))
      \<longrightarrow> cache (''All'', ''All'') = None
      \<longrightarrow> main st cache simulate ''All'' ''All'' = Inl NoFallbackNode)"
proof (intro conjI impI)
  assume "\<forall>n \<in> set (frequency_distribution_nodes st). \<not> (fst n = sz \<and> fst (snd n) = ind)"
  then show "get_frequency_distribution st sz ind
      = (if sz = ''All'' \<and> ind = ''All'' then Inl NoFallbackNode else Inr NonePair)"
    by (rule frequency_distribution_absent)
next
  assume "\<forall>n \<in> set (costs_distribution_nodes st). \<not> (fst n = sz \<and> fst (snd n) = ind)"
  then show "get_costs_distribution st sz ind
      = (if sz = ''All'' \<and> ind = ''All'' then Inl NoFallbackNode else Inr NonePair)"
    by (rule costs_distribution_absent)
next
  assume missing:
    "(\<forall>n \<in> set (frequency_distribution_nodes st). \<not> (fst n = ''All'' \<and> fst (snd n) = ''All''))
     \<or> (\<forall>n \<in> set (costs_distribution_nodes st). \<not> (fst n = ''All'' \<and> fst (snd n) = ''All''))"
    and miss: "cache (''All'', ''All'') = None"
  have "get_most_relevant_distributions st cache (''All'', ''All'') = Inl NoFallbackNode"
  proof (cases "\<forall>n \<in> set (frequency_distribution_nodes st).
      \<not> (fst n = ''All'' \<and> fst (snd n) = ''All'')")
    case True
    then have "get_frequency_distribution st ''All'' ''All'' = Inl NoFallbackNode"
      using frequency_distribution_absent [of st "''All''" "''All''"] by simp
    then have "get_incident_frequency_distribution st (''All'', ''All'') = Inl NoFallbackNode"
      by (rule fallback_error_propagates)
    then show ?thesis
      using miss by (simp add: get_most_relevant_distributions_def)
  next
    case False
    then obtain d where "get_frequency_distribution st ''All'' ''All'' = Inr (Found d)"
      using frequency_distribution_present by blast
    then have found: "get_incident_frequency_distribution st (''All'', ''All'') = Inr (Found d)"
      by (rule fallback_found_propagates)
    have "get_costs_distribution st ''All'' ''All'' = Inl NoFallbackNode"
      using False missing costs_distribution_absent [of st "''All''" "''All''"] by auto
    then have "get_incident_costs_distribution st (''All'', ''All'') = Inl NoFallbackNode"
      by (rule fallback_costs_error_propagates)
    then show ?thesis
      using found miss by (simp add: get_most_relevant_distributions_def)
  qed
  then show "main st cache simulate ''All'' ''All'' = Inl NoFallbackNode"
    by (simp add: main_def run_monte_carlo_simulation_def)
qed

lemma private_lookup_without_node_example:
  "get_frequency_distribution empty_store ''All'' ''All'' = Inl NoFallbackNode
   \<and> get_costs_distribution empty_store ''All'' ''All'' = Inl NoFallbackNode
   \<and> get_frequency_distribution segment_store ''Small'' ''A'' = Inr NonePair
   \<and> get_costs_distribution segment_store ''Small'' ''A'' = Inr NonePair
   \<and> main empty_store (\<lambda>p. None) (\<lambda>d. Inr ([], [])) ''All'' ''All'' = Inl NoFallbackNode"
  using private_lookup_without_node
      [of empty_store "''All''" "''All''" "\<lambda>p. None" "\<lambda>d. Inr ([], [])"]
    private_lookup_without_node
      [of segment_store "''Small''" "''A''" "\<lambda>p. None" "\<lambda>d. Inr ([], [])"]
  by (simp add: empty_store_def segment_store_def)

text \<open>
  The public resolver has no absent result: it returns neither None nor the tuple
  \<open>(None, None)\<close>.
\<close>

lemma resolver_never_absent:
  "get_incident_frequency_distribution st pairing \<noteq> Inr PyNone
   \<and> get_incident_frequency_distribution st pairing \<noteq> Inr NonePair"
  by (auto simp: get_incident_frequency_distribution_def get_frequency_distribution_def
      debug_parameters_def Let_def split: if_splits sum.splits resolved.splits)

lemma absent_frequency_distribution_raises:
  assumes "get_node (size_nodes st) sz \<noteq> None \<or> get_node (industry_nodes st) ind \<noteq> None"
    and "\<not> (sz = ''All'' \<and> ind = ''All'')"
    and "\<forall>n \<in> set (frequency_distribution_nodes st). \<not> (fst n = sz \<and> fst (snd n) = ind)"
  shows "get_incident_frequency_distribution st (sz, ind) = Inl TypeError"
proof -
  have "get_frequency_distribution st sz ind = Inr NonePair"
    using assms(2,3) by (auto simp: get_frequency_distribution_def filter_empty_conv)
  then show ?thesis
    using assms(1)
    by (auto simp: get_incident_frequency_distribution_def debug_parameters_def Let_def)
qed

lemma absent_costs_distribution_raises:
  assumes "get_node (size_nodes st) sz \<noteq> None \<or> get_node (industry_nodes st) ind \<noteq> None"
    and "\<not> (sz = ''All'' \<and> ind = ''All'')"
    and "\<forall>n \<in> set (costs_distribution_nodes st). \<not> (fst n = sz \<and> fst (snd n) = ind)"
  shows "get_incident_costs_distribution st (sz, ind) = Inl TypeError"
proof -
  have "get_costs_distribution st sz ind = Inr NonePair"
    using assms(2,3) by (auto simp: get_costs_distribution_def filter_empty_conv)
  then show ?thesis
    using assms(1)
    by (auto simp: get_incident_costs_distribution_def debug_parameters_def Let_def)
qed

text \<open>
  C7, the half that the code breaks. For a pairing other than the universal one that
  has a Size node or an Industry node, the request for a frequency distribution, or for
  a cost distribution, of which no node is stored raises a TypeError: the absence is
  fatal, as it is for the universal segment, and not an absent result.
\<close>

theorem absent_distribution_request_raises:
  assumes "get_node (size_nodes st) sz \<noteq> None \<or> get_node (industry_nodes st) ind \<noteq> None"
    and "\<not> (sz = ''All'' \<and> ind = ''All'')"
  shows "((\<forall>n \<in> set (frequency_distribution_nodes st). \<not> (fst n = sz \<and> fst (snd n) = ind))
           \<longrightarrow> get_incident_frequency_distribution st (sz, ind) = Inl TypeError)
         \<and> ((\<forall>n \<in> set (costs_distribution_nodes st). \<not> (fst n = sz \<and> fst (snd n) = ind))
           \<longrightarrow> get_incident_costs_distribution st (sz, ind) = Inl TypeError)"
  using absent_frequency_distribution_raises [OF assms]
    absent_costs_distribution_raises [OF assms]
  by simp

theorem absent_distribution_request_raises_witness:
  "get_node (size_nodes segment_store) ''Small'' = Some ''Small''
   \<and> get_incident_frequency_distribution segment_store (''Small'', ''All'') = Inl TypeError
   \<and> get_incident_costs_distribution segment_store (''Small'', ''All'') = Inl TypeError"
  using absent_distribution_request_raises [of segment_store "''Small''" "''All''"]
  by (simp add: segment_store_def get_node_def)

section \<open>Incident frequency probabilities\<close>

text \<open>A vector that the resolver returns has as many entries as there are boundaries.\<close>

lemma returned_vector_matches_boundaries:
  "get_incident_frequency_probabilities boundaries st pairing = Inr (Some v)
   \<Longrightarrow> length v = length boundaries"
  by (auto simp: get_incident_frequency_probabilities_def Let_def
      split: if_splits sum.splits option.splits)

text \<open>
  C5, as the code has it. With a single qualifying base vector \<open>[q1, ..., qk]\<close> and a
  breach probability \<open>p\<close>, the resolver returns None when \<open>p\<close> is 0 and otherwise the
  vector \<open>[(100 - p) / 100, p * q1 / 100, ..., p * qk / 100]\<close>, whose length is the
  number of boundaries.
\<close>

theorem single_vector_survival_series:
  assumes "qualifying boundaries st = [qs]"
    and "get_probability_of_breach st sz ind = Some p"
  shows "get_incident_frequency_probabilities boundaries st (sz, ind)
           = (if p = 0 then Inr None
              else Inr (Some ((100 - p) / 100 # map (\<lambda>q. (p * q) / 100) qs)))
         \<and> length ((100 - p) / 100 # map (\<lambda>q. (p * q) / 100) qs) = length boundaries"
proof -
  have "qs \<in> set (qualifying boundaries st)"
    using assms(1) by simp
  then have "int (length qs) = int (length boundaries) - 1"
    by (simp add: qualifying_def)
  then have len: "Suc (length qs) = length boundaries"
    by linarith
  have vs: "filter (\<lambda>ps. int (length ps) = int (length boundaries) - 1)
      (base_frequency_probabilities_nodes st) = [qs]"
    using assms(1) by (simp add: qualifying_def)
  show ?thesis
    using assms(2) len
    by (simp add: get_incident_frequency_probabilities_def vs first_row_def)
qed

theorem single_vector_survival_series_witness:
  "qualifying [0, 1, 8000] segment_store = [[7 / 10, 3 / 10]]
   \<and> get_probability_of_breach segment_store ''Small'' ''A'' = Some 50
   \<and> get_incident_frequency_probabilities [0, 1, 8000] segment_store (''Small'', ''A'')
       = Inr (Some [1 / 2, 7 / 20, 3 / 20])"
proof -
  have q: "qualifying [0, 1, 8000] segment_store = [[7 / 10, 3 / 10]]"
    by (simp add: qualifying_def segment_store_def)
  have p: "get_probability_of_breach segment_store ''Small'' ''A'' = Some 50"
    by (simp add: resolver_defs segment_store_def)
  show ?thesis
    using single_vector_survival_series [OF q p] q p by simp
qed

text \<open>
  C5 as stated fails at \<open>p = 0\<close>: the resolver returns None, not the vector
  \<open>[1, 0, 0]\<close>.
\<close>

theorem zero_breach_probability_counterexample:
  "qualifying [0, 1, 8000] zero_probability_store = [[7 / 10, 3 / 10]]
   \<and> get_probability_of_breach zero_probability_store ''Small'' ''A'' = Some 0
   \<and> get_incident_frequency_probabilities [0, 1, 8000] zero_probability_store
       (''Small'', ''A'') = Inr None
   \<and> get_incident_frequency_probabilities [0, 1, 8000] zero_probability_store
       (''Small'', ''A'')
     \<noteq> Inr (Some [(100 - 0) / 100, (0 * (7 / 10)) / 100, (0 * (3 / 10)) / 100])"
  by (simp add: get_incident_frequency_probabilities_def qualifying_def
      zero_probability_store_def segment_store_def resolver_defs)

lemma column_out_of_range:
  "vs \<noteq> [] \<Longrightarrow> length (hd vs) \<le> i \<Longrightarrow> column vs i = Inl IndexError"
  by (cases vs) (simp_all add: column_def)

lemma column_error: "column vs j = Inl e \<Longrightarrow> e = IndexError"
  by (auto simp: column_def split: list.splits if_splits)

lemma mean_columns_failing_index:
  "i \<in> set idxs \<Longrightarrow> column vs i = Inl IndexError \<Longrightarrow> mean_columns vs idxs = Inl IndexError"
proof (induction idxs)
  case Nil
  then show ?case by simp
next
  case (Cons j idxs)
  show ?case
  proof (cases "column vs j")
    case (Inl e)
    then show ?thesis using column_error [of vs j e] by simp
  next
    case (Inr c)
    then have "i \<in> set idxs" using Cons.prems by auto
    then have "mean_columns vs idxs = Inl IndexError"
      using Cons.IH Cons.prems by blast
    then show ?thesis using Inr by simp
  qed
qed

text \<open>
  With more than one qualifying vector the averaging comprehension runs the column
  index over \<open>range(len(boundaries))\<close>, one past the last column, and raises.
\<close>

lemma averaging_branch_raises:
  assumes "1 < length (qualifying boundaries st)"
  shows "get_incident_frequency_probabilities boundaries st pairing = Inl IndexError"
proof -
  let ?vs = "qualifying boundaries st"
  have ne: "?vs \<noteq> []" using assms by auto
  then have "hd ?vs \<in> set ?vs" by simp
  then have "int (length (hd ?vs)) = int (length boundaries) - 1"
    unfolding qualifying_def by simp
  then have "Suc (length (hd ?vs)) = length boundaries" by linarith
  then have "length (hd ?vs) \<in> set [0..<length boundaries]" by auto
  moreover have "column ?vs (length (hd ?vs)) = Inl IndexError"
    using ne by (simp add: column_out_of_range)
  ultimately have "mean_columns ?vs [0..<length boundaries] = Inl IndexError"
    by (rule mean_columns_failing_index)
  then show ?thesis
    using assms by (simp add: get_incident_frequency_probabilities_def qualifying_def)
qed

text \<open>
  C6 on a pool of two vectors of the expected length: the resolver raises an
  IndexError instead of averaging them.
\<close>

theorem averaging_two_vectors_raises:
  "qualifying [0, 1, 8000] two_vector_store = [[7 / 10, 3 / 10], [1 / 2, 1 / 2]]
   \<and> get_incident_frequency_probabilities [0, 1, 8000] two_vector_store (''Small'', ''A'')
       = Inl IndexError"
proof -
  have q: "qualifying [0, 1, 8000] two_vector_store = [[7 / 10, 3 / 10], [1 / 2, 1 / 2]]"
    by (simp add: qualifying_def two_vector_store_def segment_store_def)
  then have "1 < length (qualifying [0, 1, 8000] two_vector_store)" by simp
  then show ?thesis using q by (simp add: averaging_branch_raises)
qed

section \<open>Sampling the number of incidents\<close>

lemma py_int_floor: "0 \<le> x \<Longrightarrow> py_int x = \<lfloor>x\<rfloor>"
  by (simp add: py_int_def)

lemma py_int_le: "x \<le> real_of_int m \<Longrightarrow> py_int x \<le> m"
  by (simp add: py_int_def floor_le_iff ceiling_le_iff)

text \<open>A count that the function returns is at most the maximum.\<close>

lemma returned_count_at_most_maximum:
  "calculate_num_of_incidents incidents_dist u = Inr n \<Longrightarrow> n \<le> MAX_ANNUAL_INCIDENTS"
  by (auto simp: calculate_num_of_incidents_def Let_def MAX_ANNUAL_INCIDENTS_def py_int_le
      split: if_splits sum.splits pyfloat.splits)

lemma fl_in_range:
  "1 / 2 ^ 1075 < x \<Longrightarrow> x < 2 ^ 1024 \<Longrightarrow> fl x = Finite x"
proof -
  assume lo: "1 / 2 ^ 1075 < x" and hi: "x < 2 ^ 1024"
  have "(0::real) < 1 / 2 ^ 1075" by (simp del: power_numeral)
  then have "0 < x" using lo by linarith
  then show ?thesis
    using lo hi unfolding fl_def by (simp del: power_numeral)
qed

text \<open>
  Where the three float results stay inside the range of a double, the count is the
  maximum when the quotient exceeds it and the integer part of the quotient otherwise.
\<close>

lemma incident_count_capped_in_range:
  assumes "0 < a" and "0 < b" and "0 \<le> u" and "u < 1"
    and e: "fl (1 / a) = Finite (1 / a)"
    and p: "fl ((1 - u) powr (1 / a)) = Finite ((1 - u) powr (1 / a))"
    and q: "fl (b / (1 - u) powr (1 / a)) = Finite (b / (1 - u) powr (1 / a))"
  shows "\<exists>n. calculate_num_of_incidents (a, b) u = Inr n
           \<and> n \<le> MAX_ANNUAL_INCIDENTS \<and> MAX_ANNUAL_INCIDENTS = 8000
           \<and> (b / (1 - u) powr (1 / a) \<le> 8000 \<longrightarrow> n = \<lfloor>b / (1 - u) powr (1 / a)\<rfloor>)
           \<and> (8000 < b / (1 - u) powr (1 / a) \<longrightarrow> n = 8000)"
proof -
  let ?p = "(1 - u) powr (1 / a)"
  have pos: "0 < ?p" using assms by simp
  have le1: "?p \<le> 1" using assms by (simp add: powr_le1)
  have small: "\<not> (2::real) ^ 1024 \<le> ?p"
  proof -
    have "(1::real) < 2 ^ 1024" by (rule one_less_power) simp_all
    then show ?thesis using le1 by linarith
  qed
  have x: "0 < b / ?p" using assms pos by simp
  have pw: "float_pow (1 - u) (fl (1 / a)) = Inr (Finite ?p)"
    using small by (simp add: float_pow_def e p del: power_numeral)
  have nz: "?p \<noteq> 0" using pos by simp
  have az: "a \<noteq> 0" using assms by simp
  have fl_int: "py_int (b / ?p) = \<lfloor>b / ?p\<rfloor>" using x by (simp add: py_int_floor)
  show ?thesis
  proof (cases "b / ?p \<le> 8000")
    case True
    then have "\<lfloor>b / ?p\<rfloor> \<le> 8000" by (simp add: floor_le_iff)
    then show ?thesis
      using True nz az fl_int
      by (simp add: calculate_num_of_incidents_def pw q MAX_ANNUAL_INCIDENTS_def Let_def
          del: power_numeral)
  next
    case False
    then show ?thesis
      using nz az
      by (simp add: calculate_num_of_incidents_def pw q MAX_ANNUAL_INCIDENTS_def Let_def
          del: power_numeral)
  qed
qed

lemma incident_count_examples:
  "calculate_num_of_incidents (1, 7 / 4) 0 = Inr 1
   \<and> calculate_num_of_incidents (1, 9000) 0 = Inr 8000"
  by (simp add: calculate_num_of_incidents_def float_pow_def fl_def py_int_def
      MAX_ANNUAL_INCIDENTS_def)

text \<open>
  C8 at two draws inside its hypotheses, where the code returns no count. With
  \<open>a = 1 / 2000\<close>, \<open>b = 1\<close> and \<open>u = 1 / 2\<close> the power \<open>(1 - u) ** (1 / a)\<close> is
  \<open>2 ^ -2000\<close>, which underflows to zero, and the division raises ZeroDivisionError.
  With \<open>a = 1 / 1050\<close> the power is \<open>2 ^ -1050\<close>, the quotient overflows to an
  infinity, and the \<open>int\<close> of the debug call raises OverflowError before the value is
  compared with the maximum.
\<close>

theorem incident_count_raises_outside_float_range:
  "calculate_num_of_incidents (1 / 2000, 1) (1 / 2) = Inl ZeroDivisionError
   \<and> calculate_num_of_incidents (1 / 1050, 1) (1 / 2) = Inl OverflowError"
  by (simp add: calculate_num_of_incidents_def float_pow_def fl_def power_divide)

section \<open>The loss exceedance curve\<close>

lemma cumsum_from_ge: "y \<in> set (cumsum_from acc xs) \<Longrightarrow> acc \<le> y"
  by (induction xs arbitrary: acc) (auto dest: add_leD1)

lemma cumsum_from_sorted: "sorted (cumsum_from acc xs)"
  by (induction xs arbitrary: acc) (auto dest: cumsum_from_ge)

lemma length_cumsum_from: "length (cumsum_from acc xs) = length xs"
  by (induction xs arbitrary: acc) auto

lemma cumrev_non_increasing: "0 < n \<Longrightarrow> sorted_wrt (\<ge>) (cumrev hist n)"
proof -
  assume n: "0 < n"
  have "sorted_wrt (\<ge>) (rev (cumsum (rev hist)))"
    by (simp add: cumsum_def cumsum_from_sorted sorted_wrt_rev)
  then have "sorted_wrt (\<lambda>x y. real (x * 100) / real n \<ge> real (y * 100) / real n)
      (rev (cumsum (rev hist)))"
    by (rule sorted_wrt_mono_rel [rotated]) (use n in \<open>simp add: divide_right_mono\<close>)
  then show ?thesis
    by (simp add: cumrev_def sorted_wrt_map)
qed

lemma length_cumrev: "length (cumrev hist n) = length hist"
  by (simp add: cumrev_def cumsum_def length_cumsum_from)

lemma histogram_range_proper: "fst (histogram_range xs) < snd (histogram_range xs)"
proof (cases "xs = []")
  case True
  then show ?thesis by (simp add: histogram_range_def)
next
  case False
  then have le: "Min (set xs) \<le> Max (set xs)" by simp
  show ?thesis
  proof (cases "Min (set xs) = Max (set xs)")
    case True
    then show ?thesis using False by (simp add: histogram_range_def)
  next
    case ne: False
    then have "Min (set xs) < Max (set xs)" using le by linarith
    then show ?thesis using False ne by (simp add: histogram_range_def)
  qed
qed

lemma edge_strict_mono:
  assumes "fst r < snd r" and "0 < bins" and "i < j"
  shows "edge r bins i < edge r bins j"
proof -
  have "real i * (snd r - fst r) < real j * (snd r - fst r)"
    using assms by simp
  then have "real i * (snd r - fst r) / real bins < real j * (snd r - fst r) / real bins"
    using assms(2) by (simp add: divide_strict_right_mono)
  then show ?thesis by (simp add: edge_def)
qed

lemma edges_increasing:
  "fst r < snd r \<Longrightarrow> 0 < bins \<Longrightarrow> sorted_wrt (<) (map (edge r bins) [0..<bins])"
  by (simp add: sorted_wrt_map sorted_wrt_iff_nth_less edge_strict_mono)

lemma butlast_edges: "butlast (map f [0..<bins + 1]) = map f [0..<bins]"
  by simp

lemma LEC_PRECISION_value: "LEC_PRECISION = 3333"
  by (simp add: LEC_PRECISION_def COMPANY_VALUE_def)

text \<open>
  C9. For every non-empty list of simulated annual costs the curve is defined: 3333
  points, of which the cost coordinates (the lower edges of the bins) increase strictly
  and the percentages (the reverse cumulative sum of the histogram, times 100, over the
  number of trials) never increase.
\<close>

theorem loss_exceedance_curve_non_increasing:
  assumes "sum_costs \<noteq> []"
  shows "\<exists>edges curve. loss_exceedance_curve sum_costs = Some (edges, curve)
           \<and> length edges = LEC_PRECISION \<and> length curve = LEC_PRECISION
           \<and> sorted_wrt (<) edges \<and> sorted_wrt (\<ge>) curve"
proof -
  let ?r = "histogram_range sum_costs"
  let ?he = "histogram sum_costs LEC_PRECISION"
  have n: "0 < length sum_costs" using assms by simp
  have e: "butlast (snd ?he) = map (edge ?r LEC_PRECISION) [0..<LEC_PRECISION]"
    using butlast_edges [of "edge ?r LEC_PRECISION" LEC_PRECISION]
    by (simp add: histogram_def Let_def)
  have p: "0 < LEC_PRECISION" by (simp add: LEC_PRECISION_value)
  have "sorted_wrt (<) (butlast (snd ?he))"
    unfolding e using histogram_range_proper p by (rule edges_increasing)
  moreover have "sorted_wrt (\<ge>) (cumrev (fst ?he) (length sum_costs))"
    using n by (rule cumrev_non_increasing)
  moreover have "length (butlast (snd ?he)) = LEC_PRECISION"
    unfolding e by simp
  moreover have "length (cumrev (fst ?he) (length sum_costs)) = LEC_PRECISION"
    by (simp add: length_cumrev histogram_def Let_def)
  ultimately show ?thesis
    using assms by (simp add: loss_exceedance_curve_def Let_def)
qed

theorem loss_exceedance_curve_non_increasing_witness:
  "[0, 2500, 120000] \<noteq> ([] :: real list)
   \<and> (\<exists>edges curve. loss_exceedance_curve [0, 2500, 120000] = Some (edges, curve)
        \<and> length edges = LEC_PRECISION \<and> length curve = LEC_PRECISION
        \<and> sorted_wrt (<) edges \<and> sorted_wrt (\<ge>) curve)"
  using loss_exceedance_curve_non_increasing [of "[0, 2500, 120000]"]
  by simp

end
